theory Spec2Isabelle
  imports Main
begin

section \<open>The metrics tracer of the HTTP client (package gclient)\<close>

text \<open>
  The file wraps an \<open>httptrace.ClientTrace\<close> (the delegate) in a second tracer that
  updates two metric instruments and then forwards every hook to the delegate. Every
  method of \<open>clientTracerMetrics\<close> is translated below as a function on an explicit
  state; a Go panic is the value \<open>Inl\<close> of a sum.
\<close>

subsection \<open>Argument types of the hooks\<close>

text \<open>A Go \<open>error\<close>: \<open>None\<close> is \<open>nil\<close>, \<open>Some m\<close> an error with message \<open>m\<close>.\<close>

type_synonym err = "string option"

text \<open>\<open>httptrace.GotConnInfo\<close>; the connection is an identifier, the idle time a duration.\<close>

record GotConnInfo =
  Conn :: nat
  Reused :: bool
  WasIdle :: bool
  IdleTime :: int

datatype DNSStartInfo = DNSStartInfo string

datatype DNSDoneInfo = DNSDoneInfo "string list" err bool

text \<open>\<open>tls.ConnectionState\<close>, cut down to version, handshake flag and server name.\<close>

datatype ConnectionState = ConnectionState nat bool string

datatype WroteRequestInfo = WroteRequestInfo err

type_synonym MIMEHeader = "(string \<times> string list) list"

text \<open>
  \<open>http.Request\<close>: the field the tracer writes (\<open>RemoteAddr\<close>), the context that
  \<open>Request.Context()\<close> returns, and two fields an attribution may read.
\<close>

record Request =
  RemoteAddr :: string
  ctx :: nat
  Method :: string
  Host :: string

subsection \<open>Metric instruments\<close>

datatype fault = NilDereference

text \<open>
  The constants \<open>connectionStateActive\<close> and \<open>connectionStateIdle\<close> are declared in
  another file of the package; only their being two different values matters here.
\<close>

datatype connection_state = connectionStateActive | connectionStateIdle

text \<open>
  A call made on an instrument. \<open>GaugeAdd g c delta st attrMap\<close> is
  \<open>Add(c, delta, GetMetricOptionForOpenConnectionsByMap(st, attrMap))\<close> on the gauge
  \<open>g\<close>; \<open>HistRecord h v r\<close> is \<open>Record(v, GetMetricOptionForConnectionDuration(r))\<close> on
  the histogram \<open>h\<close>. The two option helpers are not in this file, so a call keeps their
  arguments. The recorded value is \<open>float64\<close> of an \<open>int64\<close> count of milliseconds,
  which is below \<open>2 ^ 53\<close> in magnitude and therefore converted exactly; the model keeps
  the integer.
\<close>

datatype 'a metric_call =
    GaugeAdd nat nat int connection_state 'a
  | HistRecord nat int Request

text \<open>
  Modelled from the spec: the type of the instrument handles of \<open>metricManager\<close>, which
  is declared outside this file. The spec describes an instrument as a backend object
  addressed through \<open>Add(ctx, delta, options)\<close> and \<open>Record(value, options)\<close> and names
  the nil instrument as the unavailable one: a handle is \<open>None\<close> (nil) or \<open>Some\<close> of an
  instrument, and a method call through a nil handle is a nil dereference.
  \<open>GetMetricAttributeMap\<close> is the attribution helper, a parameter.
\<close>

record 'a localMetricManager =
  HttpClientOpenConnections :: "nat option"
  HttpClientConnectionDuration :: "nat option"
  GetMetricAttributeMap :: "Request \<Rightarrow> 'a"

text \<open>
  What the file uses of its package and of \<open>gtime\<close> without defining it:
  the metric manager, and what \<open>gtime.Time.Sub\<close> does when its argument is nil
  (\<open>Inl\<close> a panic, \<open>Inr d\<close> the duration it returns), which this file does not decide.
\<close>

record 'a pkg =
  metricManager :: "'a localMetricManager"
  gtimeSubNil :: "fault + int"

subsection \<open>Time\<close>

text \<open>
  An instant is a count of nanoseconds. \<open>time.Time.Sub\<close> saturates at the bounds of
  \<open>time.Duration\<close> (an \<open>int64\<close>); \<open>Duration.Milliseconds\<close> is the integer division by
  \<open>1e6\<close>, which in Go truncates toward zero.
\<close>

definition maxDuration :: int where
  "maxDuration = 2 ^ 63 - 1"

definition minDuration :: int where
  "minDuration = - (2 ^ 63)"

definition time_Sub :: "int \<Rightarrow> int \<Rightarrow> int" where
  "time_Sub t u =
     (let d = t - u
      in if d > maxDuration then maxDuration
         else if d < minDuration then minDuration
         else d)"

definition Milliseconds :: "int \<Rightarrow> int" where
  "Milliseconds d = (if d < 0 then - ((- d) div 1000000) else d div 1000000)"

text \<open>
  Modelled from the spec: \<open>gtime.Time.Sub\<close> (package \<open>os/gtime\<close>, not in this file), on
  a receiver that \<open>gtime.Now()\<close> returned. For a timestamp that is set it is the elapsed
  time between the two instants; for a nil timestamp it is the parameter of the package.
\<close>

definition gtime_Sub :: "'a pkg \<Rightarrow> int \<Rightarrow> int option \<Rightarrow> fault + int" where
  "gtime_Sub p t u =
     (case u of
        None \<Rightarrow> gtimeSubNil p
      | Some u' \<Rightarrow> Inr (time_Sub t u'))"

subsection \<open>The delegate and the state\<close>

text \<open>
  The state at the moment a delegate hook is called: the request, the tracer's
  timestamp and the calls made on the instruments so far (oldest first). A hook is
  given this view, so that what the tracer has done before calling it, and what it has
  not, shows in what the delegate does.
\<close>

record 'a view =
  vRequest :: Request
  vConnectStartTime :: "int option"
  vMetrics :: "'a metric_call list"

text \<open>
  \<open>httptrace.ClientTrace\<close>, the delegate: sixteen function fields. A hook receives
  its arguments and the view, and acts on the delegate's own state \<open>'d\<close>;
  \<open>Got1xxResponse\<close> also returns an error. The delegate and the request are taken to
  be there: a nil delegate, a delegate with a nil field and a nil request are outside
  the model.
\<close>

record ('a, 'd) ClientTrace =
  hkGetConn :: "string \<Rightarrow> 'a view \<Rightarrow> 'd \<Rightarrow> 'd"
  hkGotConn :: "GotConnInfo \<Rightarrow> 'a view \<Rightarrow> 'd \<Rightarrow> 'd"
  hkPutIdleConn :: "err \<Rightarrow> 'a view \<Rightarrow> 'd \<Rightarrow> 'd"
  hkGotFirstResponseByte :: "'a view \<Rightarrow> 'd \<Rightarrow> 'd"
  hkGot100Continue :: "'a view \<Rightarrow> 'd \<Rightarrow> 'd"
  hkGot1xxResponse :: "int \<Rightarrow> MIMEHeader \<Rightarrow> 'a view \<Rightarrow> 'd \<Rightarrow> err \<times> 'd"
  hkDNSStart :: "DNSStartInfo \<Rightarrow> 'a view \<Rightarrow> 'd \<Rightarrow> 'd"
  hkDNSDone :: "DNSDoneInfo \<Rightarrow> 'a view \<Rightarrow> 'd \<Rightarrow> 'd"
  hkConnectStart :: "string \<Rightarrow> string \<Rightarrow> 'a view \<Rightarrow> 'd \<Rightarrow> 'd"
  hkConnectDone :: "string \<Rightarrow> string \<Rightarrow> err \<Rightarrow> 'a view \<Rightarrow> 'd \<Rightarrow> 'd"
  hkTLSHandshakeStart :: "'a view \<Rightarrow> 'd \<Rightarrow> 'd"
  hkTLSHandshakeDone :: "ConnectionState \<Rightarrow> err \<Rightarrow> 'a view \<Rightarrow> 'd \<Rightarrow> 'd"
  hkWroteHeaderField :: "string \<Rightarrow> string list \<Rightarrow> 'a view \<Rightarrow> 'd \<Rightarrow> 'd"
  hkWroteHeaders :: "'a view \<Rightarrow> 'd \<Rightarrow> 'd"
  hkWait100Continue :: "'a view \<Rightarrow> 'd \<Rightarrow> 'd"
  hkWroteRequest :: "WroteRequestInfo \<Rightarrow> 'a view \<Rightarrow> 'd \<Rightarrow> 'd"

text \<open>
  The struct \<open>clientTracerMetrics\<close>. \<open>Request\<close> is a pointer in Go; the record holds
  what it points to, which \<open>ConnectStart\<close> writes. \<open>ConnectStartTime\<close> is a pointer
  that may be nil.
\<close>

record ('a, 'd) clientTracerMetrics =
  ClientTrace :: "('a, 'd) ClientTrace"
  Request :: Request
  ConnectStartTime :: "int option"

text \<open>Outside the tracer: the calls the instruments have received and the delegate's state.\<close>

record ('a, 'd) world =
  metrics :: "'a metric_call list"
  dstate :: 'd

definition observe :: "('a, 'd) clientTracerMetrics \<Rightarrow> ('a, 'd) world \<Rightarrow> 'a view" where
  "observe ct w =
     \<lparr>vRequest = Request ct, vConnectStartTime = ConnectStartTime ct, vMetrics = metrics w\<rparr>"

text \<open>
  Modelled from the spec: the two instrument methods, \<open>Add\<close> of the up-down counter and
  \<open>Record\<close> of the histogram, whose implementations are outside this file. An
  instrument appends the call to what it has received; a call through a nil handle
  panics, and nothing in the methods below recovers from it.
\<close>

definition UpDownCounter_Add ::
  "nat option \<Rightarrow> nat \<Rightarrow> int \<Rightarrow> connection_state \<Rightarrow> 'a \<Rightarrow> ('a, 'd) world \<Rightarrow> fault + ('a, 'd) world" where
  "UpDownCounter_Add handle c delta st attrMap w =
     (case handle of
        None \<Rightarrow> Inl NilDereference
      | Some g \<Rightarrow> Inr (w\<lparr>metrics := metrics w @ [GaugeAdd g c delta st attrMap]\<rparr>))"

definition Histogram_Record ::
  "nat option \<Rightarrow> int \<Rightarrow> Request \<Rightarrow> ('a, 'd) world \<Rightarrow> fault + ('a, 'd) world" where
  "Histogram_Record handle v r w =
     (case handle of
        None \<Rightarrow> Inl NilDereference
      | Some h \<Rightarrow> Inr (w\<lparr>metrics := metrics w @ [HistRecord h v r]\<rparr>))"

subsection \<open>The constructor\<close>

text \<open>
  \<open>newClientTracerMetrics\<close> builds the tracer with the request and the delegate;
  \<open>ConnectStartTime\<close> is not named in the literal, so it is nil.
\<close>

definition newClientTracerMetrics ::
  "Request \<Rightarrow> ('a, 'd) ClientTrace \<Rightarrow> ('a, 'd) clientTracerMetrics" where
  "newClientTracerMetrics request baseClientTracer =
     \<lparr>ClientTrace = baseClientTracer, Request = request, ConnectStartTime = None\<rparr>"

subsection \<open>The sixteen methods\<close>

text \<open>
  Each method takes the tracer and the world and returns both, or a panic. A method
  that reads the clock takes \<open>now\<close>, the instant \<open>gtime.Now()\<close> returns in that call.
\<close>

type_synonym ('a, 'd) outcome = "fault + (('a, 'd) clientTracerMetrics \<times> ('a, 'd) world)"

definition GetConn ::
  "('a, 'd) clientTracerMetrics \<Rightarrow> string \<Rightarrow> ('a, 'd) world \<Rightarrow> ('a, 'd) outcome" where
  "GetConn ct hostPort w =
     Inr (ct, w\<lparr>dstate := hkGetConn (ClientTrace ct) hostPort (observe ct w) (dstate w)\<rparr>)"

definition GotConn ::
  "'a pkg \<Rightarrow> ('a, 'd) clientTracerMetrics \<Rightarrow> GotConnInfo \<Rightarrow> ('a, 'd) world \<Rightarrow> ('a, 'd) outcome" where
  "GotConn p ct info w =
     (case
        (if \<not> Reused info then
           (let c = ctx (Request ct);
                attrMap = GetMetricAttributeMap (metricManager p) (Request ct)
            in case UpDownCounter_Add (HttpClientOpenConnections (metricManager p))
                      c 1 connectionStateActive attrMap w of
                 Inl f \<Rightarrow> Inl f
               | Inr w1 \<Rightarrow>
                   (if WasIdle info then
                      UpDownCounter_Add (HttpClientOpenConnections (metricManager p))
                        c (- 1) connectionStateIdle attrMap w1
                    else Inr w1))
         else Inr w) of
        Inl f \<Rightarrow> Inl f
      | Inr w2 \<Rightarrow>
          Inr (ct, w2\<lparr>dstate := hkGotConn (ClientTrace ct) info (observe ct w2) (dstate w2)\<rparr>))"

definition PutIdleConn ::
  "'a pkg \<Rightarrow> ('a, 'd) clientTracerMetrics \<Rightarrow> err \<Rightarrow> ('a, 'd) world \<Rightarrow> ('a, 'd) outcome" where
  "PutIdleConn p ct e w =
     (let c = ctx (Request ct);
          attrMap = GetMetricAttributeMap (metricManager p) (Request ct)
      in case UpDownCounter_Add (HttpClientOpenConnections (metricManager p))
                c (- 1) connectionStateActive attrMap w of
           Inl f \<Rightarrow> Inl f
         | Inr w1 \<Rightarrow>
             (case (if e = None then
                      UpDownCounter_Add (HttpClientOpenConnections (metricManager p))
                        c 1 connectionStateIdle attrMap w1
                    else Inr w1) of
                Inl f \<Rightarrow> Inl f
              | Inr w2 \<Rightarrow>
                  Inr (ct, w2\<lparr>dstate :=
                              hkPutIdleConn (ClientTrace ct) e (observe ct w2) (dstate w2)\<rparr>)))"

definition GotFirstResponseByte ::
  "('a, 'd) clientTracerMetrics \<Rightarrow> ('a, 'd) world \<Rightarrow> ('a, 'd) outcome" where
  "GotFirstResponseByte ct w =
     Inr (ct, w\<lparr>dstate := hkGotFirstResponseByte (ClientTrace ct) (observe ct w) (dstate w)\<rparr>)"

definition Got100Continue ::
  "('a, 'd) clientTracerMetrics \<Rightarrow> ('a, 'd) world \<Rightarrow> ('a, 'd) outcome" where
  "Got100Continue ct w =
     Inr (ct, w\<lparr>dstate := hkGot100Continue (ClientTrace ct) (observe ct w) (dstate w)\<rparr>)"

text \<open>\<open>Got1xxResponse\<close> is the one method with a result.\<close>

definition Got1xxResponse ::
  "('a, 'd) clientTracerMetrics \<Rightarrow> int \<Rightarrow> MIMEHeader \<Rightarrow> ('a, 'd) world
     \<Rightarrow> fault + (err \<times> ('a, 'd) clientTracerMetrics \<times> ('a, 'd) world)" where
  "Got1xxResponse ct code header w =
     (case hkGot1xxResponse (ClientTrace ct) code header (observe ct w) (dstate w) of
        (e, d') \<Rightarrow> Inr (e, ct, w\<lparr>dstate := d'\<rparr>))"

definition DNSStart ::
  "('a, 'd) clientTracerMetrics \<Rightarrow> DNSStartInfo \<Rightarrow> ('a, 'd) world \<Rightarrow> ('a, 'd) outcome" where
  "DNSStart ct info w =
     Inr (ct, w\<lparr>dstate := hkDNSStart (ClientTrace ct) info (observe ct w) (dstate w)\<rparr>)"

definition DNSDone ::
  "('a, 'd) clientTracerMetrics \<Rightarrow> DNSDoneInfo \<Rightarrow> ('a, 'd) world \<Rightarrow> ('a, 'd) outcome" where
  "DNSDone ct info w =
     Inr (ct, w\<lparr>dstate := hkDNSDone (ClientTrace ct) info (observe ct w) (dstate w)\<rparr>)"

definition ConnectStart ::
  "('a, 'd) clientTracerMetrics \<Rightarrow> int \<Rightarrow> string \<Rightarrow> string \<Rightarrow> ('a, 'd) world
     \<Rightarrow> ('a, 'd) outcome" where
  "ConnectStart ct now network addr w =
     (let ct1 = (if RemoteAddr (Request ct) = []
                 then ct\<lparr>Request := (Request ct)\<lparr>RemoteAddr := addr\<rparr>\<rparr>
                 else ct);
          ct2 = ct1\<lparr>ConnectStartTime := Some now\<rparr>
      in Inr (ct2, w\<lparr>dstate :=
                      hkConnectStart (ClientTrace ct2) network addr (observe ct2 w) (dstate w)\<rparr>))"

definition ConnectDone ::
  "'a pkg \<Rightarrow> ('a, 'd) clientTracerMetrics \<Rightarrow> int \<Rightarrow> string \<Rightarrow> string \<Rightarrow> err
     \<Rightarrow> ('a, 'd) world \<Rightarrow> ('a, 'd) outcome" where
  "ConnectDone p ct now network addr e w =
     (case gtime_Sub p now (ConnectStartTime ct) of
        Inl f \<Rightarrow> Inl f
      | Inr d \<Rightarrow>
          (case Histogram_Record (HttpClientConnectionDuration (metricManager p))
                  (Milliseconds d) (Request ct) w of
             Inl f \<Rightarrow> Inl f
           | Inr w1 \<Rightarrow>
               Inr (ct, w1\<lparr>dstate :=
                           hkConnectDone (ClientTrace ct) network addr e (observe ct w1)
                             (dstate w1)\<rparr>)))"

definition TLSHandshakeStart ::
  "('a, 'd) clientTracerMetrics \<Rightarrow> ('a, 'd) world \<Rightarrow> ('a, 'd) outcome" where
  "TLSHandshakeStart ct w =
     Inr (ct, w\<lparr>dstate := hkTLSHandshakeStart (ClientTrace ct) (observe ct w) (dstate w)\<rparr>)"

definition TLSHandshakeDone ::
  "('a, 'd) clientTracerMetrics \<Rightarrow> ConnectionState \<Rightarrow> err \<Rightarrow> ('a, 'd) world
     \<Rightarrow> ('a, 'd) outcome" where
  "TLSHandshakeDone ct state e w =
     Inr (ct, w\<lparr>dstate :=
                  hkTLSHandshakeDone (ClientTrace ct) state e (observe ct w) (dstate w)\<rparr>)"

definition WroteHeaderField ::
  "('a, 'd) clientTracerMetrics \<Rightarrow> string \<Rightarrow> string list \<Rightarrow> ('a, 'd) world
     \<Rightarrow> ('a, 'd) outcome" where
  "WroteHeaderField ct key val w =
     Inr (ct, w\<lparr>dstate :=
                  hkWroteHeaderField (ClientTrace ct) key val (observe ct w) (dstate w)\<rparr>)"

definition WroteHeaders ::
  "('a, 'd) clientTracerMetrics \<Rightarrow> ('a, 'd) world \<Rightarrow> ('a, 'd) outcome" where
  "WroteHeaders ct w =
     Inr (ct, w\<lparr>dstate := hkWroteHeaders (ClientTrace ct) (observe ct w) (dstate w)\<rparr>)"

definition Wait100Continue ::
  "('a, 'd) clientTracerMetrics \<Rightarrow> ('a, 'd) world \<Rightarrow> ('a, 'd) outcome" where
  "Wait100Continue ct w =
     Inr (ct, w\<lparr>dstate := hkWait100Continue (ClientTrace ct) (observe ct w) (dstate w)\<rparr>)"

definition WroteRequest ::
  "('a, 'd) clientTracerMetrics \<Rightarrow> WroteRequestInfo \<Rightarrow> ('a, 'd) world \<Rightarrow> ('a, 'd) outcome" where
  "WroteRequest ct info w =
     Inr (ct, w\<lparr>dstate := hkWroteRequest (ClientTrace ct) info (observe ct w) (dstate w)\<rparr>)"

subsection \<open>The entry points the constructor returns\<close>

text \<open>One invocation of a hook: which of the sixteen, and its arguments.\<close>

datatype hook_call =
    CallGetConn string
  | CallGotConn GotConnInfo
  | CallPutIdleConn err
  | CallGotFirstResponseByte
  | CallGot100Continue
  | CallGot1xxResponse int MIMEHeader
  | CallDNSStart DNSStartInfo
  | CallDNSDone DNSDoneInfo
  | CallConnectStart string string
  | CallConnectDone string string err
  | CallTLSHandshakeStart
  | CallTLSHandshakeDone ConnectionState err
  | CallWroteHeaderField string "string list"
  | CallWroteHeaders
  | CallWait100Continue
  | CallWroteRequest WroteRequestInfo

text \<open>What an invocation gives back: nothing, or the error of \<open>Got1xxResponse\<close>.\<close>

datatype ret = NoResult | Result err

definition no_result ::
  "('a, 'd) outcome \<Rightarrow> fault + (ret \<times> ('a, 'd) clientTracerMetrics \<times> ('a, 'd) world)" where
  "no_result r = (case r of Inl f \<Rightarrow> Inl f | Inr (ct, w) \<Rightarrow> Inr (NoResult, ct, w))"

text \<open>
  The struct literal that \<open>newClientTracerMetrics\<close> returns binds each field to the
  method of the same name on the tracer; \<open>invoke\<close> is a call of the field.
\<close>

fun invoke ::
  "'a pkg \<Rightarrow> ('a, 'd) clientTracerMetrics \<Rightarrow> int \<Rightarrow> hook_call \<Rightarrow> ('a, 'd) world
     \<Rightarrow> fault + (ret \<times> ('a, 'd) clientTracerMetrics \<times> ('a, 'd) world)" where
  "invoke p ct now (CallGetConn hostPort) w = no_result (GetConn ct hostPort w)"
| "invoke p ct now (CallGotConn info) w = no_result (GotConn p ct info w)"
| "invoke p ct now (CallPutIdleConn e) w = no_result (PutIdleConn p ct e w)"
| "invoke p ct now CallGotFirstResponseByte w = no_result (GotFirstResponseByte ct w)"
| "invoke p ct now CallGot100Continue w = no_result (Got100Continue ct w)"
| "invoke p ct now (CallGot1xxResponse code header) w =
     (case Got1xxResponse ct code header w of
        Inl f \<Rightarrow> Inl f
      | Inr (e, ct', w') \<Rightarrow> Inr (Result e, ct', w'))"
| "invoke p ct now (CallDNSStart info) w = no_result (DNSStart ct info w)"
| "invoke p ct now (CallDNSDone info) w = no_result (DNSDone ct info w)"
| "invoke p ct now (CallConnectStart network addr) w =
     no_result (ConnectStart ct now network addr w)"
| "invoke p ct now (CallConnectDone network addr e) w =
     no_result (ConnectDone p ct now network addr e w)"
| "invoke p ct now CallTLSHandshakeStart w = no_result (TLSHandshakeStart ct w)"
| "invoke p ct now (CallTLSHandshakeDone state e) w = no_result (TLSHandshakeDone ct state e w)"
| "invoke p ct now (CallWroteHeaderField key val) w = no_result (WroteHeaderField ct key val w)"
| "invoke p ct now CallWroteHeaders w = no_result (WroteHeaders ct w)"
| "invoke p ct now CallWait100Continue w = no_result (Wait100Continue ct w)"
| "invoke p ct now (CallWroteRequest info) w = no_result (WroteRequest ct info w)"

text \<open>The same invocation made on a delegate directly: its field of that name, once.\<close>

fun delegate_call ::
  "('a, 'd) ClientTrace \<Rightarrow> hook_call \<Rightarrow> 'a view \<Rightarrow> 'd \<Rightarrow> ret \<times> 'd" where
  "delegate_call t (CallGetConn hostPort) v d = (NoResult, hkGetConn t hostPort v d)"
| "delegate_call t (CallGotConn info) v d = (NoResult, hkGotConn t info v d)"
| "delegate_call t (CallPutIdleConn e) v d = (NoResult, hkPutIdleConn t e v d)"
| "delegate_call t CallGotFirstResponseByte v d = (NoResult, hkGotFirstResponseByte t v d)"
| "delegate_call t CallGot100Continue v d = (NoResult, hkGot100Continue t v d)"
| "delegate_call t (CallGot1xxResponse code header) v d =
     (case hkGot1xxResponse t code header v d of (e, d') \<Rightarrow> (Result e, d'))"
| "delegate_call t (CallDNSStart info) v d = (NoResult, hkDNSStart t info v d)"
| "delegate_call t (CallDNSDone info) v d = (NoResult, hkDNSDone t info v d)"
| "delegate_call t (CallConnectStart network addr) v d =
     (NoResult, hkConnectStart t network addr v d)"
| "delegate_call t (CallConnectDone network addr e) v d =
     (NoResult, hkConnectDone t network addr e v d)"
| "delegate_call t CallTLSHandshakeStart v d = (NoResult, hkTLSHandshakeStart t v d)"
| "delegate_call t (CallTLSHandshakeDone state e) v d =
     (NoResult, hkTLSHandshakeDone t state e v d)"
| "delegate_call t (CallWroteHeaderField key val) v d =
     (NoResult, hkWroteHeaderField t key val v d)"
| "delegate_call t CallWroteHeaders v d = (NoResult, hkWroteHeaders t v d)"
| "delegate_call t CallWait100Continue v d = (NoResult, hkWait100Continue t v d)"
| "delegate_call t (CallWroteRequest info) v d = (NoResult, hkWroteRequest t info v d)"

text \<open>
  A spy delegate: every hook appends the invocation and the view it was given to a log;
  its \<open>Got1xxResponse\<close> answers with \<open>answer code header\<close>.
\<close>

definition spy ::
  "(int \<Rightarrow> MIMEHeader \<Rightarrow> err) \<Rightarrow> ('a, (hook_call \<times> 'a view) list) ClientTrace" where
  "spy answer =
     \<lparr>hkGetConn = (\<lambda>hostPort v d. d @ [(CallGetConn hostPort, v)]),
      hkGotConn = (\<lambda>info v d. d @ [(CallGotConn info, v)]),
      hkPutIdleConn = (\<lambda>e v d. d @ [(CallPutIdleConn e, v)]),
      hkGotFirstResponseByte = (\<lambda>v d. d @ [(CallGotFirstResponseByte, v)]),
      hkGot100Continue = (\<lambda>v d. d @ [(CallGot100Continue, v)]),
      hkGot1xxResponse =
        (\<lambda>code header v d. (answer code header, d @ [(CallGot1xxResponse code header, v)])),
      hkDNSStart = (\<lambda>info v d. d @ [(CallDNSStart info, v)]),
      hkDNSDone = (\<lambda>info v d. d @ [(CallDNSDone info, v)]),
      hkConnectStart = (\<lambda>network addr v d. d @ [(CallConnectStart network addr, v)]),
      hkConnectDone = (\<lambda>network addr e v d. d @ [(CallConnectDone network addr e, v)]),
      hkTLSHandshakeStart = (\<lambda>v d. d @ [(CallTLSHandshakeStart, v)]),
      hkTLSHandshakeDone = (\<lambda>state e v d. d @ [(CallTLSHandshakeDone state e, v)]),
      hkWroteHeaderField = (\<lambda>key val v d. d @ [(CallWroteHeaderField key val, v)]),
      hkWroteHeaders = (\<lambda>v d. d @ [(CallWroteHeaders, v)]),
      hkWait100Continue = (\<lambda>v d. d @ [(CallWait100Continue, v)]),
      hkWroteRequest = (\<lambda>info v d. d @ [(CallWroteRequest info, v)])\<rparr>"

text \<open>
  A sequence of invocations, each with the instant the clock shows during it; a panic
  ends the run.
\<close>

fun run ::
  "'a pkg \<Rightarrow> (int \<times> hook_call) list \<Rightarrow> ('a, 'd) clientTracerMetrics \<Rightarrow> ('a, 'd) world
     \<Rightarrow> ('a, 'd) outcome" where
  "run p [] ct w = Inr (ct, w)"
| "run p ((now, c) # cs) ct w =
     (case invoke p ct now c w of
        Inl f \<Rightarrow> Inl f
      | Inr (r, ct', w') \<Rightarrow> run p cs ct' w')"

subsection \<open>Notions the properties are stated with\<close>

text \<open>Which invocations reach an instrument: read off the bodies of the methods.\<close>

fun uses_gauge :: "hook_call \<Rightarrow> bool" where
  "uses_gauge (CallGotConn info) = (\<not> Reused info)"
| "uses_gauge (CallPutIdleConn e) = True"
| "uses_gauge c = False"

fun uses_histogram :: "hook_call \<Rightarrow> bool" where
  "uses_histogram (CallConnectDone network addr e) = True"
| "uses_histogram c = False"

fun is_ConnectStart :: "hook_call \<Rightarrow> bool" where
  "is_ConnectStart (CallConnectStart network addr) = True"
| "is_ConnectStart c = False"

text \<open>The sum of the deltas sent to the gauge for the active state.\<close>

fun active_delta :: "'a metric_call list \<Rightarrow> int" where
  "active_delta [] = 0"
| "active_delta (GaugeAdd g c delta st a # ms) =
     (if st = connectionStateActive then delta else 0) + active_delta ms"
| "active_delta (HistRecord h v r # ms) = active_delta ms"

text \<open>The active sum at the end of a run.\<close>

definition final_active_delta :: "('a, 'd) outcome \<Rightarrow> fault + int" where
  "final_active_delta r =
     (case r of Inl f \<Rightarrow> Inl f | Inr (ct, w) \<Rightarrow> Inr (active_delta (metrics w)))"

text \<open>
  A connection kept alive: \<open>n\<close> times it is returned to the idle pool
  (\<open>PutIdleConn\<close> with a nil error) and then handed to the next request (\<open>GotConn\<close>
  with \<open>info\<close>). Neither method reads the clock, so every event carries the
  instant 0.
\<close>

fun keep_alive :: "GotConnInfo \<Rightarrow> nat \<Rightarrow> (int \<times> hook_call) list" where
  "keep_alive info 0 = []"
| "keep_alive info (Suc n) =
     (0, CallPutIdleConn None) # (0, CallGotConn info) # keep_alive info n"

text \<open>A sequence of \<open>ConnectStart\<close> calls, and the first address in a list that is not empty.\<close>

definition connect_starts :: "(int \<times> string \<times> string) list \<Rightarrow> (int \<times> hook_call) list" where
  "connect_starts cs = map (\<lambda>(t, network, addr). (t, CallConnectStart network addr)) cs"

fun first_nonempty :: "string list \<Rightarrow> string" where
  "first_nonempty [] = []"
| "first_nonempty (a # as) = (if a = [] then first_nonempty as else a)"

text \<open>The field \<open>Request.RemoteAddr\<close> at the end of a run.\<close>

definition final_RemoteAddr :: "('a, 'd) outcome \<Rightarrow> fault + string" where
  "final_RemoteAddr r =
     (case r of Inl f \<Rightarrow> Inl f | Inr (ct, w) \<Rightarrow> Inr (RemoteAddr (Request ct)))"

subsection \<open>Concrete inputs\<close>

definition example_request :: Request where
  "example_request = \<lparr>RemoteAddr = [], ctx = 7, Method = ''GET'', Host = ''example.org''\<rparr>"

text \<open>Both instruments present; for a nil timestamp, one of the possible behaviours.\<close>

definition example_pkg :: "(string \<times> string) list pkg" where
  "example_pkg =
     \<lparr>metricManager =
        \<lparr>HttpClientOpenConnections = Some 1,
         HttpClientConnectionDuration = Some 2,
         GetMetricAttributeMap = (\<lambda>r. [(''method'', Method r), (''host'', Host r)])\<rparr>,
      gtimeSubNil = Inr 0\<rparr>"

text \<open>Both instrument handles nil.\<close>

definition example_pkg_nil :: "(string \<times> string) list pkg" where
  "example_pkg_nil =
     \<lparr>metricManager =
        \<lparr>HttpClientOpenConnections = None,
         HttpClientConnectionDuration = None,
         GetMetricAttributeMap = (\<lambda>r. [(''method'', Method r), (''host'', Host r)])\<rparr>,
      gtimeSubNil = Inr 0\<rparr>"

definition example_tracer ::
  "((string \<times> string) list, (hook_call \<times> (string \<times> string) list view) list)
     clientTracerMetrics" where
  "example_tracer = newClientTracerMetrics example_request (spy (\<lambda>code header. None))"

definition example_world ::
  "((string \<times> string) list, (hook_call \<times> (string \<times> string) list view) list) world" where
  "example_world = \<lparr>metrics = [], dstate = []\<rparr>"

definition new_conn :: GotConnInfo where
  "new_conn = \<lparr>Conn = 3, Reused = False, WasIdle = False, IdleTime = 0\<rparr>"

definition idle_conn :: GotConnInfo where
  "idle_conn = \<lparr>Conn = 3, Reused = False, WasIdle = True, IdleTime = 5\<rparr>"

definition reused_conn :: GotConnInfo where
  "reused_conn = \<lparr>Conn = 3, Reused = True, WasIdle = True, IdleTime = 5\<rparr>"

section \<open>Properties\<close>

subsection \<open>Gauge updates of GotConn and PutIdleConn\<close>

text \<open>
  Claim C1. \<open>GotConn\<close> with \<open>Reused = false\<close> sends \<open>+1\<close> for the active state to the
  open-connections gauge, under the context and the attribution of this request, and
  after it \<open>-1\<close> for the idle state when \<open>WasIdle\<close> holds; these are all the calls it
  makes on an instrument. With \<open>Reused = true\<close> it makes no call on an instrument,
  whatever \<open>WasIdle\<close> is (and whether or not the gauge is there).
\<close>

theorem GotConn_gauge_updates:
  "(Reused info \<longrightarrow>
      (\<exists>w'. GotConn p ct info w = Inr (ct, w') \<and> metrics w' = metrics w)) \<and>
   (\<not> Reused info \<and> HttpClientOpenConnections (metricManager p) = Some g \<longrightarrow>
      (\<exists>w'. GotConn p ct info w = Inr (ct, w') \<and>
            metrics w' =
              metrics w @
              GaugeAdd g (ctx (Request ct)) 1 connectionStateActive
                (GetMetricAttributeMap (metricManager p) (Request ct)) #
              (if WasIdle info
               then [GaugeAdd g (ctx (Request ct)) (- 1) connectionStateIdle
                       (GetMetricAttributeMap (metricManager p) (Request ct))]
               else [])))"
  by (simp add: GotConn_def UpDownCounter_Add_def Let_def)

theorem GotConn_gauge_updates_witness:
  "(\<exists>w'. GotConn example_pkg_nil example_tracer reused_conn example_world =
           Inr (example_tracer, w') \<and> metrics w' = []) \<and>
   (\<exists>w'. GotConn example_pkg example_tracer idle_conn example_world =
           Inr (example_tracer, w') \<and>
         metrics w' =
           [GaugeAdd 1 7 1 connectionStateActive
              [(''method'', ''GET''), (''host'', ''example.org'')],
            GaugeAdd 1 7 (- 1) connectionStateIdle
              [(''method'', ''GET''), (''host'', ''example.org'')]])"
  using GotConn_gauge_updates [of reused_conn example_pkg_nil example_tracer example_world 1]
    GotConn_gauge_updates [of idle_conn example_pkg example_tracer example_world 1]
  by (simp add: example_pkg_def example_tracer_def example_world_def example_request_def
      newClientTracerMetrics_def reused_conn_def idle_conn_def)

text \<open>
  Claim C2. \<open>PutIdleConn\<close> sends \<open>-1\<close> for the active state to the gauge whatever the
  error is, and after it \<open>+1\<close> for the idle state exactly when the error is nil; with
  an error the decrement is the only call.
\<close>

theorem PutIdleConn_gauge_updates:
  assumes "HttpClientOpenConnections (metricManager p) = Some g"
  shows "\<exists>w'. PutIdleConn p ct e w = Inr (ct, w') \<and>
            metrics w' =
              metrics w @
              GaugeAdd g (ctx (Request ct)) (- 1) connectionStateActive
                (GetMetricAttributeMap (metricManager p) (Request ct)) #
              (if e = None
               then [GaugeAdd g (ctx (Request ct)) 1 connectionStateIdle
                       (GetMetricAttributeMap (metricManager p) (Request ct))]
               else [])"
  using assms by (simp add: PutIdleConn_def UpDownCounter_Add_def Let_def)

theorem PutIdleConn_gauge_updates_witness:
  "(\<exists>w'. PutIdleConn example_pkg example_tracer (Some ''broken pipe'') example_world =
           Inr (example_tracer, w') \<and>
         metrics w' =
           [GaugeAdd 1 7 (- 1) connectionStateActive
              [(''method'', ''GET''), (''host'', ''example.org'')]]) \<and>
   (\<exists>w'. PutIdleConn example_pkg example_tracer None example_world =
           Inr (example_tracer, w') \<and>
         metrics w' =
           [GaugeAdd 1 7 (- 1) connectionStateActive
              [(''method'', ''GET''), (''host'', ''example.org'')],
            GaugeAdd 1 7 1 connectionStateIdle
              [(''method'', ''GET''), (''host'', ''example.org'')]])"
proof -
  have g: "HttpClientOpenConnections (metricManager example_pkg) = Some 1"
    by (simp add: example_pkg_def)
  show ?thesis
    using PutIdleConn_gauge_updates [OF g, of example_tracer "Some ''broken pipe''" example_world]
      PutIdleConn_gauge_updates [OF g, of example_tracer None example_world]
    by (simp add: example_pkg_def example_tracer_def example_world_def example_request_def
        newClientTracerMetrics_def)
qed

subsection \<open>The result of Got1xxResponse\<close>

text \<open>
  Claim C9. \<open>Got1xxResponse\<close> returns the error the delegate's \<open>Got1xxResponse\<close>
  returns for the same code and header, nil or not, and changes nothing but the
  delegate's state: the tracer and the calls on the instruments are as before.
\<close>

theorem Got1xxResponse_verbatim:
  "Got1xxResponse ct code header w =
     Inr (fst (hkGot1xxResponse (ClientTrace ct) code header (observe ct w) (dstate w)),
          ct,
          w\<lparr>dstate :=
              snd (hkGot1xxResponse (ClientTrace ct) code header (observe ct w) (dstate w))\<rparr>)"
  by (simp add: Got1xxResponse_def split: prod.splits)

theorem Got1xxResponse_verbatim_witness:
  "\<exists>ct' w'.
     Got1xxResponse
       (newClientTracerMetrics example_request
          (spy (\<lambda>code header. if code = 103 then Some ''abort'' else None)))
       103 [(''Link'', [''</style.css>''])] example_world = Inr (Some ''abort'', ct', w') \<and>
     metrics w' = metrics example_world"
  using Got1xxResponse_verbatim
    [of "newClientTracerMetrics example_request
           (spy (\<lambda>code header. if code = 103 then Some ''abort'' else None))"
      103 "[(''Link'', [''</style.css>''])]" example_world]
  by (simp add: newClientTracerMetrics_def spy_def)

subsection \<open>The connect-start timestamp and the duration histogram\<close>

text \<open>
  The recorded value is the \<open>float64\<close> of a count that stays below \<open>2 ^ 53\<close> in
  magnitude, so the conversion loses nothing.
\<close>

lemma time_Sub_range: "minDuration \<le> time_Sub t u \<and> time_Sub t u \<le> maxDuration"
  by (simp add: time_Sub_def Let_def minDuration_def maxDuration_def)

lemma Milliseconds_range:
  assumes "minDuration \<le> d" and "d \<le> maxDuration"
  shows "\<bar>Milliseconds d\<bar> < 2 ^ 53"
proof (cases "d < 0")
  case True
  have "(- d) div 1000000 \<le> (2 ^ 63) div (1000000::int)"
    using assms(1) by (intro zdiv_mono1) (simp_all add: minDuration_def)
  moreover have "0 \<le> (- d) div 1000000"
    using True by simp
  ultimately show ?thesis
    using True by (simp add: Milliseconds_def)
next
  case False
  have "d div 1000000 \<le> (2 ^ 63 - 1) div (1000000::int)"
    using assms(2) by (intro zdiv_mono1) (simp_all add: maxDuration_def)
  moreover have "0 \<le> d div 1000000"
    using False by simp
  ultimately show ?thesis
    using False by (simp add: Milliseconds_def)
qed

lemma Milliseconds_bound: "\<bar>Milliseconds (time_Sub t u)\<bar> < 2 ^ 53"
  using time_Sub_range [of t u] Milliseconds_range by blast

text \<open>
  The timestamp is nil in a new tracer, \<open>ConnectStart\<close> sets it to the instant of the
  call, and no other hook changes it or the request. What \<open>ConnectDone\<close> does while it
  is nil is what \<open>gtime.Time.Sub\<close> does with a nil argument.
\<close>

lemma ConnectStartTime_initial:
  "ConnectStartTime (newClientTracerMetrics request baseClientTracer) = None"
  by (simp add: newClientTracerMetrics_def)

lemma ConnectStartTime_set:
  "\<exists>ct' w'. ConnectStart ct t0 network addr w = Inr (ct', w') \<and>
     ConnectStartTime ct' = Some t0 \<and> metrics w' = metrics w"
  by (simp add: ConnectStart_def Let_def)

lemma ConnectStartTime_kept:
  assumes "invoke p ct now call w = Inr (r, ct', w')" and "\<not> is_ConnectStart call"
  shows "ConnectStartTime ct' = ConnectStartTime ct \<and> Request ct' = Request ct"
proof (cases call)
  case (CallGotConn info)
  then show ?thesis
    using assms(1)
    by (auto simp: no_result_def GotConn_def Let_def split: sum.splits if_splits)
next
  case (CallPutIdleConn e)
  then show ?thesis
    using assms(1)
    by (auto simp: no_result_def PutIdleConn_def Let_def split: sum.splits if_splits)
next
  case (CallConnectDone network addr e)
  then show ?thesis
    using assms(1)
    by (auto simp: no_result_def ConnectDone_def split: sum.splits)
next
  case (CallGot1xxResponse code header)
  then show ?thesis
    using assms(1) by (auto simp: Got1xxResponse_def split: prod.splits)
next
  case (CallConnectStart network addr)
  then show ?thesis
    using assms(2) by simp
qed (use assms(1) in \<open>auto simp: no_result_def GetConn_def GotFirstResponseByte_def
      Got100Continue_def DNSStart_def DNSDone_def TLSHandshakeStart_def TLSHandshakeDone_def
      WroteHeaderField_def WroteHeaders_def Wait100Continue_def WroteRequest_def\<close>)

lemma ConnectDone_nil_timestamp:
  assumes "ConnectStartTime ct = None"
    and "HttpClientConnectionDuration (metricManager p) = Some h"
  shows "(\<exists>f. ConnectDone p ct now network addr e w = Inl f) = (\<exists>f. gtimeSubNil p = Inl f)"
  using assms
  by (auto simp: ConnectDone_def gtime_Sub_def Histogram_Record_def split: sum.splits)

text \<open>
  Claim C3. Every \<open>ConnectDone\<close>, whatever its error, makes one call on an instrument:
  it records into the connect-duration histogram, for this request, the milliseconds
  between the stored connect-start instant and now. The value is exactly representable
  as a \<open>float64\<close>, and it is the elapsed nanoseconds divided by \<open>10 ^ 6\<close> when the
  clock did not go back and the difference fits a duration. The stored instant is the
  one of the latest \<open>ConnectStart\<close>: \<open>ConnectStart\<close> overwrites it, no other hook
  changes it, and \<open>ConnectStart\<close> records nothing.
\<close>

theorem ConnectDone_records_elapsed:
  "(ConnectStartTime ct = Some t0 \<and> HttpClientConnectionDuration (metricManager p) = Some h \<longrightarrow>
      (\<exists>w'. ConnectDone p ct now network addr e w = Inr (ct, w') \<and>
            metrics w' =
              metrics w @ [HistRecord h (Milliseconds (time_Sub now t0)) (Request ct)])) \<and>
   \<bar>Milliseconds (time_Sub now t0)\<bar> < 2 ^ 53 \<and>
   (0 \<le> now - t0 \<and> now - t0 \<le> maxDuration \<longrightarrow>
      Milliseconds (time_Sub now t0) = (now - t0) div 1000000) \<and>
   (\<exists>ct' w'. ConnectStart ct t0 network addr w = Inr (ct', w') \<and>
             ConnectStartTime ct' = Some t0 \<and> metrics w' = metrics w) \<and>
   (invoke p ct now call w = Inr (r, ct1, w1) \<and> \<not> is_ConnectStart call \<longrightarrow>
      ConnectStartTime ct1 = ConnectStartTime ct)"
proof -
  have "ConnectStartTime ct = Some t0 \<and> HttpClientConnectionDuration (metricManager p) = Some h \<longrightarrow>
      (\<exists>w'. ConnectDone p ct now network addr e w = Inr (ct, w') \<and>
            metrics w' =
              metrics w @ [HistRecord h (Milliseconds (time_Sub now t0)) (Request ct)])"
    by (simp add: ConnectDone_def gtime_Sub_def Histogram_Record_def)
  moreover have "0 \<le> now - t0 \<and> now - t0 \<le> maxDuration \<longrightarrow>
      Milliseconds (time_Sub now t0) = (now - t0) div 1000000"
    by (simp add: Milliseconds_def time_Sub_def Let_def minDuration_def)
  moreover have "invoke p ct now call w = Inr (r, ct1, w1) \<and> \<not> is_ConnectStart call \<longrightarrow>
      ConnectStartTime ct1 = ConnectStartTime ct"
    using ConnectStartTime_kept by blast
  ultimately show ?thesis
    using Milliseconds_bound ConnectStartTime_set by blast
qed

theorem ConnectDone_records_elapsed_witness:
  "(\<exists>w'. ConnectDone example_pkg (example_tracer\<lparr>ConnectStartTime := Some 5000000\<rparr>)
            47000000 ''tcp'' ''1.2.3.4:443'' (Some ''timeout'') example_world =
           Inr (example_tracer\<lparr>ConnectStartTime := Some 5000000\<rparr>, w') \<and>
         metrics w' = [HistRecord 2 42 example_request]) \<and>
   (\<exists>ct' w'. run example_pkg
               [(1000000, CallConnectStart ''tcp'' ''1.2.3.4:443''),
                (5000000, CallConnectStart ''tcp'' ''1.2.3.4:443''),
                (47000000, CallConnectDone ''tcp'' ''1.2.3.4:443'' None)]
               example_tracer example_world = Inr (ct', w') \<and>
            metrics w' = [HistRecord 2 42 (example_request\<lparr>RemoteAddr := ''1.2.3.4:443''\<rparr>)])"
proof -
  let ?ct = "example_tracer\<lparr>ConnectStartTime := Some 5000000\<rparr>"
  let ?w1 = "example_world\<lparr>dstate :=
               [(CallGetConn ''example.org:443'', observe ?ct example_world)]\<rparr>"
  have call: "invoke example_pkg ?ct 47000000 (CallGetConn ''example.org:443'') example_world =
                Inr (NoResult, ?ct, ?w1)"
    by (simp add: no_result_def GetConn_def example_tracer_def example_world_def
        newClientTracerMetrics_def spy_def)
  have ms: "Milliseconds (time_Sub 47000000 5000000) = 42"
    by (simp add: Milliseconds_def time_Sub_def Let_def maxDuration_def minDuration_def)
  have ms': "Milliseconds (time_Sub 47000000 5000000) = 42 \<Longrightarrow> ?thesis"
    using ConnectDone_records_elapsed [where ct = ?ct and ?t0.0 = 5000000 and p = example_pkg
        and h = 2 and now = 47000000 and network = "''tcp''" and addr = "''1.2.3.4:443''"
        and e = "Some ''timeout''" and w = example_world
        and call = "CallGetConn ''example.org:443''" and r = NoResult and ?ct1.0 = ?ct
        and ?w1.0 = ?w1] call
    by (simp add: example_pkg_def example_tracer_def example_world_def example_request_def
        newClientTracerMetrics_def no_result_def ConnectStart_def ConnectDone_def
        gtime_Sub_def Histogram_Record_def Let_def)
  show ?thesis by (rule ms' [OF ms])
qed

subsection \<open>The active gauge over the life of a connection\<close>

lemma active_delta_append: "active_delta (xs @ ys) = active_delta xs + active_delta ys"
  by (induction xs rule: active_delta.induct) simp_all

lemma GotConn_active:
  assumes "HttpClientOpenConnections (metricManager p) = Some g" and "\<not> Reused info"
  shows "\<exists>ct' w'. invoke p ct now (CallGotConn info) w = Inr (NoResult, ct', w') \<and>
           active_delta (metrics w') = active_delta (metrics w) + 1"
  using assms
  by (simp add: no_result_def GotConn_def UpDownCounter_Add_def Let_def active_delta_append)

lemma GotConn_reused_active:
  assumes "Reused info"
  shows "\<exists>ct' w'. invoke p ct now (CallGotConn info) w = Inr (NoResult, ct', w') \<and>
           active_delta (metrics w') = active_delta (metrics w)"
  using assms by (simp add: no_result_def GotConn_def)

lemma PutIdleConn_active:
  assumes "HttpClientOpenConnections (metricManager p) = Some g"
  shows "\<exists>ct' w'. invoke p ct now (CallPutIdleConn e) w = Inr (NoResult, ct', w') \<and>
           active_delta (metrics w') = active_delta (metrics w) - 1"
  using assms
  by (simp add: no_result_def PutIdleConn_def UpDownCounter_Add_def Let_def active_delta_append)

text \<open>
  \<open>GotConn\<close> sends \<open>+1\<close> for the active state only when \<open>Reused\<close> is false, while
  \<open>PutIdleConn\<close> sends \<open>-1\<close> for it every time. A connection that comes back from the
  idle pool has been used for a request before, so its \<open>GotConn\<close> reports
  \<open>Reused = true\<close>: each return to the pool followed by such a reuse takes the active
  sum one further down.
\<close>

lemma reused_GotConn_PutIdleConn:
  assumes "HttpClientOpenConnections (metricManager p) = Some g" and "Reused info"
  shows "\<exists>ct' w'. run p [(t1, CallGotConn info), (t2, CallPutIdleConn e)] ct w = Inr (ct', w') \<and>
           active_delta (metrics w') = active_delta (metrics w) - 1"
  using assms
  by (simp add: no_result_def GotConn_def PutIdleConn_def UpDownCounter_Add_def Let_def
      active_delta_append)

lemma keep_alive_active:
  assumes g: "HttpClientOpenConnections (metricManager p) = Some g" and r: "Reused info"
  shows "\<exists>ct' w'. run p (keep_alive info n) ct w = Inr (ct', w') \<and>
           active_delta (metrics w') = active_delta (metrics w) - int n"
proof (induction n arbitrary: ct w)
  case 0
  show ?case by simp
next
  case (Suc n)
  from PutIdleConn_active [OF g, of ct 0 None w] obtain ct1 w1 where
    s1: "invoke p ct 0 (CallPutIdleConn None) w = Inr (NoResult, ct1, w1)"
    and d1: "active_delta (metrics w1) = active_delta (metrics w) - 1"
    by blast
  from GotConn_reused_active [OF r, of p ct1 0 w1] obtain ct2 w2 where
    s2: "invoke p ct1 0 (CallGotConn info) w1 = Inr (NoResult, ct2, w2)"
    and d2: "active_delta (metrics w2) = active_delta (metrics w1)"
    by blast
  from Suc.IH [of ct2 w2] obtain ct' w' where
    s3: "run p (keep_alive info n) ct2 w2 = Inr (ct', w')"
    and d3: "active_delta (metrics w') = active_delta (metrics w2) - int n"
    by blast
  have "run p (keep_alive info (Suc n)) ct w = Inr (ct', w')"
    using s1 s2 s3 by simp
  moreover have "active_delta (metrics w') = active_delta (metrics w) - int (Suc n)"
    using d1 d2 d3 by simp
  ultimately show ?case by blast
qed

text \<open>
  The whole life: a new connection, then \<open>n\<close> returns to the idle pool each followed
  by a reuse. The active sum the tracer has sent is \<open>1 - n\<close>: 0 while the connection
  is in use for the second time, and negative from the second return on.
\<close>

lemma new_then_keep_alive:
  assumes g: "HttpClientOpenConnections (metricManager p) = Some g"
    and new: "\<not> Reused info" and r: "Reused info'"
  shows "\<exists>ct' w'. run p ((t, CallGotConn info) # keep_alive info' n) ct w = Inr (ct', w') \<and>
           active_delta (metrics w') - active_delta (metrics w) = 1 - int n"
proof -
  from GotConn_active [OF g new, of ct t w] obtain ct1 w1 where
    s1: "invoke p ct t (CallGotConn info) w = Inr (NoResult, ct1, w1)"
    and d1: "active_delta (metrics w1) = active_delta (metrics w) + 1"
    by blast
  from keep_alive_active [OF g r, of n ct1 w1] obtain ct' w' where
    s2: "run p (keep_alive info' n) ct1 w1 = Inr (ct', w')"
    and d2: "active_delta (metrics w') = active_delta (metrics w1) - int n"
    by blast
  have "run p ((t, CallGotConn info) # keep_alive info' n) ct w = Inr (ct', w')"
    using s1 s2 by simp
  moreover have "active_delta (metrics w') - active_delta (metrics w) = 1 - int n"
    using d1 d2 by simp
  ultimately show ?thesis by blast
qed

text \<open>
  Claim C4 says that over the life of one connection (new, then returns to the idle pool
  alternating with reuses from it) the net delta the tracer has sent to the gauge for
  the active state is \<open>+1\<close> after each \<open>GotConn\<close>, 0 after each \<open>PutIdleConn\<close> with a
  nil error, and never negative. The code does not keep it. On a new connection, a
  return, a reuse from the pool (\<open>Reused\<close> and \<open>WasIdle\<close> both true) and a second
  return, the net delta is 0 after the second \<open>GotConn\<close>, where the claim has \<open>+1\<close>,
  and \<open>-1\<close> after the second \<open>PutIdleConn\<close>, where the claim has 0 and nothing
  negative.
\<close>

theorem keep_alive_reuse_active_sum:
  "final_active_delta
     (run example_pkg
        [(0, CallGotConn new_conn), (10, CallPutIdleConn None), (20, CallGotConn reused_conn)]
        example_tracer example_world) = Inr 0 \<and>
   final_active_delta
     (run example_pkg
        [(0, CallGotConn new_conn), (10, CallPutIdleConn None), (20, CallGotConn reused_conn),
         (30, CallPutIdleConn None)]
        example_tracer example_world) = Inr (- 1)"
  by (simp add: final_active_delta_def no_result_def GotConn_def PutIdleConn_def
      UpDownCounter_Add_def Let_def example_pkg_def example_world_def new_conn_def
      reused_conn_def)

subsection \<open>Forwarding to the delegate\<close>

text \<open>
  An invocation that returns has called the delegate's field of the same name with the
  same arguments, on the delegate's state as it was, and the view the delegate was given
  is the view at the return. One case per method; the eleven methods that only forward
  are closed together.
\<close>

lemma invoke_delegate:
  assumes "invoke p ct now call w = Inr (r, ct', w')"
  shows "ClientTrace ct' = ClientTrace ct \<and>
         delegate_call (ClientTrace ct) call (observe ct' w') (dstate w) = (r, dstate w')"
proof (cases call)
  case (CallGotConn info)
  then show ?thesis
    using assms
    by (auto simp: no_result_def GotConn_def UpDownCounter_Add_def observe_def Let_def
        split: sum.splits if_splits option.splits)
next
  case (CallPutIdleConn e)
  then show ?thesis
    using assms
    by (auto simp: no_result_def PutIdleConn_def UpDownCounter_Add_def observe_def Let_def
        split: sum.splits if_splits option.splits)
next
  case (CallConnectStart network addr)
  then show ?thesis
    using assms
    by (auto simp: no_result_def ConnectStart_def observe_def Let_def split: if_splits)
next
  case (CallConnectDone network addr e)
  then show ?thesis
    using assms
    by (auto simp: no_result_def ConnectDone_def Histogram_Record_def observe_def
        split: sum.splits option.splits)
next
  case (CallGot1xxResponse code header)
  then show ?thesis
    using assms
    by (auto simp: Got1xxResponse_def observe_def split: prod.splits)
qed (use assms in \<open>auto simp: no_result_def GetConn_def GotFirstResponseByte_def
      Got100Continue_def DNSStart_def DNSDone_def TLSHandshakeStart_def TLSHandshakeDone_def
      WroteHeaderField_def WroteHeaders_def Wait100Continue_def WroteRequest_def observe_def\<close>)



text \<open>
  Claim C6. In each of the sixteen callbacks the delegate is called last: the view it is
  given (the request with its \<open>RemoteAddr\<close>, the connect-start timestamp, the calls made
  on the gauge and the histogram) is the view at the moment the callback returns, so
  every write and every instrument call of the callback has been made before the
  delegate runs and none after it.
\<close>

theorem bookkeeping_before_delegate:
  assumes "invoke p ct now call w = Inr (r, ct', w')"
  shows "delegate_call (ClientTrace ct) call (observe ct' w') (dstate w) = (r, dstate w')"
  using invoke_delegate [OF assms] by simp

theorem bookkeeping_before_delegate_witness:
  "\<exists>ct' w' v.
     invoke example_pkg example_tracer 5 (CallConnectStart ''tcp'' ''1.2.3.4:443'')
       example_world = Inr (NoResult, ct', w') \<and>
     dstate w' = [(CallConnectStart ''tcp'' ''1.2.3.4:443'', v)] \<and>
     v = observe ct' w' \<and>
     RemoteAddr (vRequest v) = ''1.2.3.4:443'' \<and> vConnectStartTime v = Some 5"
proof -
  let ?call = "CallConnectStart ''tcp'' ''1.2.3.4:443''"
  let ?ct' = "example_tracer\<lparr>Request := example_request\<lparr>RemoteAddr := ''1.2.3.4:443''\<rparr>,
                              ConnectStartTime := Some 5\<rparr>"
  let ?v = "\<lparr>vRequest = example_request\<lparr>RemoteAddr := ''1.2.3.4:443''\<rparr>,
             vConnectStartTime = Some 5, vMetrics = []\<rparr> :: (string \<times> string) list view"
  let ?w' = "example_world\<lparr>dstate := [(?call, ?v)]\<rparr>"
  have i: "invoke example_pkg example_tracer 5 ?call example_world = Inr (NoResult, ?ct', ?w')"
    by (simp add: no_result_def ConnectStart_def Let_def example_tracer_def example_world_def
        example_request_def newClientTracerMetrics_def spy_def observe_def)
  have v: "?v = observe ?ct' ?w'"
    by (simp add: observe_def example_world_def)
  from bookkeeping_before_delegate [OF i]
  have "delegate_call (ClientTrace example_tracer) ?call (observe ?ct' ?w') (dstate example_world) =
          (NoResult, dstate ?w')" .
  then have "dstate ?w' = [(?call, observe ?ct' ?w')]"
    by (simp add: example_tracer_def newClientTracerMetrics_def spy_def example_world_def)
  with i v show ?thesis
    by (intro exI [of _ ?ct'] exI [of _ ?w'] exI [of _ ?v]) simp
qed

subsection \<open>Unavailable instruments\<close>

lemma fault_eq: "(f::fault) = NilDereference"
  by (cases f) simp

text \<open>
  Claim C7 says that with an unavailable instrument (a nil handle) every callback
  degrades to a no-op and never panics. The methods call \<open>Add\<close> and \<open>Record\<close> through the
  handle without a check and without recovering, so it fails: with both handles nil,
  \<open>GotConn\<close> for a new connection panics.
\<close>

theorem nil_gauge_panics:
  "invoke example_pkg_nil example_tracer 0 (CallGotConn new_conn) example_world =
     Inl NilDereference"
  by (simp add: no_result_def GotConn_def UpDownCounter_Add_def example_pkg_nil_def
      new_conn_def)

text \<open>
  Claim C7, amended. A callback that reaches an instrument panics when the handle of that
  instrument is nil: \<open>GotConn\<close> with \<open>Reused = false\<close> and \<open>PutIdleConn\<close> for the gauge,
  \<open>ConnectDone\<close> for the histogram. A callback that reaches no instrument returns and
  makes no instrument call, whatever the handles are. With the gauge present the gauge
  callbacks return, and with the histogram present and a connect-start instant stored
  \<open>ConnectDone\<close> returns.
\<close>

theorem instrument_availability:
  "(uses_gauge call \<and> HttpClientOpenConnections (metricManager p) = None \<longrightarrow>
      invoke p ct now call w = Inl NilDereference) \<and>
   (uses_histogram call \<and> HttpClientConnectionDuration (metricManager p) = None \<longrightarrow>
      invoke p ct now call w = Inl NilDereference) \<and>
   (\<not> uses_gauge call \<and> \<not> uses_histogram call \<longrightarrow>
      (\<exists>r ct' w'. invoke p ct now call w = Inr (r, ct', w') \<and> metrics w' = metrics w)) \<and>
   (uses_gauge call \<and> HttpClientOpenConnections (metricManager p) = Some g \<longrightarrow>
      (\<exists>r ct' w'. invoke p ct now call w = Inr (r, ct', w'))) \<and>
   (uses_histogram call \<and> HttpClientConnectionDuration (metricManager p) = Some h \<and>
    ConnectStartTime ct = Some t0 \<longrightarrow>
      (\<exists>r ct' w'. invoke p ct now call w = Inr (r, ct', w')))"
proof (cases call)
  case (CallGotConn info)
  then show ?thesis
    by (simp add: no_result_def GotConn_def UpDownCounter_Add_def Let_def)
next
  case (CallPutIdleConn e)
  then show ?thesis
    by (simp add: no_result_def PutIdleConn_def UpDownCounter_Add_def Let_def)
next
  case (CallConnectDone network addr e)
  then show ?thesis
    by (auto simp: no_result_def ConnectDone_def Histogram_Record_def gtime_Sub_def fault_eq
        split: sum.splits option.splits)
next
  case (CallConnectStart network addr)
  then show ?thesis
    by (simp add: no_result_def ConnectStart_def Let_def)
next
  case (CallGot1xxResponse code header)
  then show ?thesis
    by (simp add: Got1xxResponse_def split: prod.splits)
qed (simp_all add: no_result_def GetConn_def GotFirstResponseByte_def
      Got100Continue_def DNSStart_def DNSDone_def TLSHandshakeStart_def TLSHandshakeDone_def
      WroteHeaderField_def WroteHeaders_def Wait100Continue_def WroteRequest_def)

theorem instrument_availability_witness:
  "invoke example_pkg_nil example_tracer 0 (CallPutIdleConn None) example_world =
     Inl NilDereference \<and>
   invoke example_pkg_nil (example_tracer\<lparr>ConnectStartTime := Some 0\<rparr>) 9
     (CallConnectDone ''tcp'' ''1.2.3.4:443'' None) example_world = Inl NilDereference \<and>
   (\<exists>r ct' w'. invoke example_pkg_nil example_tracer 0 (CallGotConn reused_conn) example_world =
                 Inr (r, ct', w') \<and> metrics w' = metrics example_world) \<and>
   (\<exists>r ct' w'. invoke example_pkg example_tracer 0 (CallPutIdleConn None) example_world =
                 Inr (r, ct', w')) \<and>
   (\<exists>r ct' w'. invoke example_pkg (example_tracer\<lparr>ConnectStartTime := Some 0\<rparr>) 9
                 (CallConnectDone ''tcp'' ''1.2.3.4:443'' None) example_world =
                 Inr (r, ct', w'))"
proof -
  let ?ct = "example_tracer\<lparr>ConnectStartTime := Some 0\<rparr>"
  let ?done = "CallConnectDone ''tcp'' ''1.2.3.4:443'' None"
  have nil: "HttpClientOpenConnections (metricManager example_pkg_nil) = None"
    "HttpClientConnectionDuration (metricManager example_pkg_nil) = None"
    by (simp_all add: example_pkg_nil_def)
  have some: "HttpClientOpenConnections (metricManager example_pkg) = Some 1"
    "HttpClientConnectionDuration (metricManager example_pkg) = Some 2"
    by (simp_all add: example_pkg_def)
  have t: "ConnectStartTime ?ct = Some 0"
    by simp
  have r: "\<not> uses_gauge (CallGotConn reused_conn)" "\<not> uses_histogram (CallGotConn reused_conn)"
    by (simp_all add: reused_conn_def)
  show ?thesis
    using instrument_availability [of "CallPutIdleConn None" example_pkg_nil example_tracer 0
        example_world]
      instrument_availability [of ?done example_pkg_nil ?ct 9 example_world]
      instrument_availability [of "CallGotConn reused_conn" example_pkg_nil example_tracer 0
        example_world]
      instrument_availability [of "CallPutIdleConn None" example_pkg example_tracer 0 example_world 1]
      instrument_availability [of ?done example_pkg ?ct 9 example_world _ 2 0]
      nil some t r
    by simp
qed

subsection \<open>The address written by ConnectStart\<close>

lemma ConnectStart_RemoteAddr:
  "\<exists>ct' w'. invoke p ct now (CallConnectStart network addr) w = Inr (NoResult, ct', w') \<and>
     RemoteAddr (Request ct') =
       (if RemoteAddr (Request ct) = [] then addr else RemoteAddr (Request ct))"
  by (simp add: no_result_def ConnectStart_def Let_def)

lemma connect_starts_RemoteAddr:
  "\<exists>ct' w'. run p (connect_starts cs) ct w = Inr (ct', w') \<and>
     RemoteAddr (Request ct') =
       (if RemoteAddr (Request ct) = [] then first_nonempty (map (\<lambda>(t, network, addr). addr) cs)
        else RemoteAddr (Request ct))"
proof (induction cs arbitrary: ct w)
  case Nil
  show ?case by (simp add: connect_starts_def)
next
  case (Cons c cs)
  obtain t network addr where c: "c = (t, network, addr)" by (cases c)
  from ConnectStart_RemoteAddr [of p ct t network addr w] obtain ct1 w1 where
    step: "invoke p ct t (CallConnectStart network addr) w = Inr (NoResult, ct1, w1)"
    and a1: "RemoteAddr (Request ct1) =
               (if RemoteAddr (Request ct) = [] then addr else RemoteAddr (Request ct))"
    by blast
  from Cons.IH [of ct1 w1] obtain ct' w' where
    r: "run p (connect_starts cs) ct1 w1 = Inr (ct', w')"
    and a2: "RemoteAddr (Request ct') =
               (if RemoteAddr (Request ct1) = []
                then first_nonempty (map (\<lambda>(t, network, addr). addr) cs)
                else RemoteAddr (Request ct1))"
    by blast
  have "run p (connect_starts (c # cs)) ct w = Inr (ct', w')"
    using c step r by (simp add: connect_starts_def)
  moreover have "RemoteAddr (Request ct') =
       (if RemoteAddr (Request ct) = []
        then first_nonempty (map (\<lambda>(t, network, addr). addr) (c # cs))
        else RemoteAddr (Request ct))"
    using a1 a2 c by simp
  ultimately show ?case by blast
qed

text \<open>
  Claim C8 says that after any sequence of \<open>ConnectStart\<close> calls the field holds the
  address of the first call. The guard compares the field with the empty string, so a
  first call with an empty address leaves the field empty and the next call writes it:
  starting from an empty field, after a \<open>ConnectStart\<close> with the empty address and
  a \<open>ConnectStart\<close> with the address \<open>10.0.0.2:80\<close>, the field is the second
  address, not the (empty) first one.
\<close>

theorem RemoteAddr_not_first_call:
  "final_RemoteAddr
     (run example_pkg (connect_starts [(0, ''tcp'', []), (1, ''tcp'', ''10.0.0.2:80'')])
        example_tracer example_world) =
   Inr ''10.0.0.2:80''"
  by (simp add: final_RemoteAddr_def connect_starts_def no_result_def ConnectStart_def Let_def
      example_tracer_def example_request_def newClientTracerMetrics_def)

text \<open>
  Claim C8, amended. \<open>ConnectStart\<close> writes its address into \<open>Request.RemoteAddr\<close> only
  when the field is empty, and leaves a field that is not empty unchanged. So after any
  sequence of \<open>ConnectStart\<close> calls a field that was not empty is as it was, and a field
  that was empty holds the first address of the sequence that is not empty (and is
  still empty when there is none): the address of the first call whenever that address
  is not empty.
\<close>

theorem RemoteAddr_first_nonempty:
  "(\<exists>ct' w'. ConnectStart ct now network addr w = Inr (ct', w') \<and>
      RemoteAddr (Request ct') =
        (if RemoteAddr (Request ct) = [] then addr else RemoteAddr (Request ct))) \<and>
   (\<exists>ct' w'. run p (connect_starts cs) ct w = Inr (ct', w') \<and>
      RemoteAddr (Request ct') =
        (if RemoteAddr (Request ct) = []
         then first_nonempty (map (\<lambda>(t, network, addr). addr) cs)
         else RemoteAddr (Request ct))) \<and>
   (RemoteAddr (Request ct) = [] \<and> a \<noteq> [] \<longrightarrow>
      final_RemoteAddr (run p (connect_starts ((t, n, a) # rest)) ct w) = Inr a)"
proof -
  have one: "\<exists>ct' w'. ConnectStart ct now network addr w = Inr (ct', w') \<and>
      RemoteAddr (Request ct') =
        (if RemoteAddr (Request ct) = [] then addr else RemoteAddr (Request ct))"
    by (simp add: ConnectStart_def Let_def)
  have first: "final_RemoteAddr (run p (connect_starts ((t, n, a) # rest)) ct w) = Inr a"
    if "RemoteAddr (Request ct) = []" and "a \<noteq> []"
    using that connect_starts_RemoteAddr [of p "(t, n, a) # rest" ct w]
    by (auto simp: final_RemoteAddr_def)
  from one first connect_starts_RemoteAddr [of p cs ct w] show ?thesis
    by blast
qed

theorem RemoteAddr_first_nonempty_witness:
  "(\<exists>ct' w'.
      run example_pkg (connect_starts [(0, ''tcp'', ''1.2.3.4:443''), (1, ''tcp'', ''5.6.7.8:443'')])
        example_tracer example_world = Inr (ct', w') \<and>
      RemoteAddr (Request ct') = ''1.2.3.4:443'') \<and>
   final_RemoteAddr
     (run example_pkg (connect_starts [(0, ''tcp'', ''1.2.3.4:443''), (1, ''tcp'', ''5.6.7.8:443'')])
        example_tracer example_world) = Inr ''1.2.3.4:443''"
proof -
  let ?a = "''1.2.3.4:443''"
  let ?rest = "[(1::int, ''tcp'', ''5.6.7.8:443'')]"
  have e: "RemoteAddr (Request example_tracer) = []"
    by (simp add: example_tracer_def example_request_def newClientTracerMetrics_def)
  have n: "?a \<noteq> []"
    by simp
  have f: "first_nonempty (map (\<lambda>(t, network, addr). addr) ((0::int, ''tcp'', ?a) # ?rest)) = ?a"
    by simp
  note inst = RemoteAddr_first_nonempty [of example_tracer 0 "''tcp''" ?a example_world
      example_pkg "(0, ''tcp'', ?a) # ?rest" ?a 0 "''tcp''" ?rest]
  from inst e n have last: "final_RemoteAddr
     (run example_pkg (connect_starts ((0, ''tcp'', ?a) # ?rest)) example_tracer example_world) =
     Inr ?a"
    by blast
  from inst have "\<exists>ct' w'.
      run example_pkg (connect_starts ((0, ''tcp'', ?a) # ?rest)) example_tracer example_world =
        Inr (ct', w') \<and>
      RemoteAddr (Request ct') =
        (if RemoteAddr (Request example_tracer) = []
         then first_nonempty (map (\<lambda>(t, network, addr). addr) ((0::int, ''tcp'', ?a) # ?rest))
         else RemoteAddr (Request example_tracer))"
    by blast
  then have "\<exists>ct' w'.
      run example_pkg (connect_starts ((0, ''tcp'', ?a) # ?rest)) example_tracer example_world =
        Inr (ct', w') \<and>
      RemoteAddr (Request ct') = ?a"
    unfolding e f by simp
  with last show ?thesis
    by blast
qed

end
